theory Spec2Isabelle
  imports Complex_Main
begin

section \<open>Values, errors and outcomes\<close>

text \<open>
  The repository works on \<^verbatim>\<open>map[string]interface{}\<close> values. A value of
  \<^verbatim>\<open>interface{}\<close> is one of the dynamic types below; a key that is absent from
  a Go map reads as the nil interface, which is \<open>None\<close> here. A \<^verbatim>\<open>float64\<close>
  that a JSON decoder produced is finite and is represented by the real number it
  denotes.
\<close>

datatype goval =
    VNil
  | VBool bool
  | VFloat64 real
  | VInt int
  | VString string
  | VSlice "goval list"
  | VMap "string \<Rightarrow> goval option"

type_synonym gomap = "string \<Rightarrow> goval option"

text \<open>A Go \<^verbatim>\<open>error\<close> value carries its message; the nil error is \<open>None\<close>.\<close>

datatype error = Err string

definition errors_New :: "string \<Rightarrow> error" where
  "errors_New msg = Err msg"

datatype panic = NilDereference | TypeAssertion | DivideByZero | NilMapAssignment

text \<open>
  A call returns a value, panics, or ends the process (\<^verbatim>\<open>log.Fatalf\<close>).
\<close>

datatype 'r outcome = Returned 'r | Panicked panic | Exited

text \<open>\<^verbatim>\<open>err.Error()\<close>: a method call on the nil interface panics.\<close>

definition Error_method :: "error option \<Rightarrow> panic + string" where
  "Error_method err = (case err of None \<Rightarrow> Inl NilDereference | Some (Err msg) \<Rightarrow> Inr msg)"

subsection \<open>Go's int\<close>

text \<open>
  \<^verbatim>\<open>int\<close> is taken as 64 bits wide and modelled by \<open>int\<close>, with the wrap-around
  written where a result can leave the range. Division truncates towards zero, and a zero
  divisor panics (checked by the caller of \<open>go_div\<close>).
\<close>

definition wrap64 :: "int \<Rightarrow> int" where
  "wrap64 x = (x + 2 ^ 63) mod 2 ^ 64 - 2 ^ 63"

definition go_div :: "int \<Rightarrow> int \<Rightarrow> int" where
  "go_div a b = wrap64 (sgn a * sgn b * (\<bar>a\<bar> div \<bar>b\<bar>))"

definition go_rem :: "int \<Rightarrow> int \<Rightarrow> int" where
  "go_rem a b = sgn a * (\<bar>a\<bar> mod \<bar>b\<bar>)"

text \<open>
  \<^verbatim>\<open>int(f)\<close> for a \<^verbatim>\<open>float64\<close>: the fraction is dropped. Outside the range
  of \<^verbatim>\<open>int\<close> the result depends on the platform; the value of amd64 is used.
\<close>

definition int_of_float64 :: "real \<Rightarrow> int" where
  "int_of_float64 f =
     (let t = (if 0 \<le> f then \<lfloor>f\<rfloor> else \<lceil>f\<rceil>)
      in if - (2 ^ 63) \<le> t \<and> t < 2 ^ 63 then t else - (2 ^ 63))"

subsection \<open>Type assertions\<close>

text \<open>
  \<^verbatim>\<open>v.(map[string]interface{})\<close>, \<^verbatim>\<open>v.(float64)\<close> and
  \<^verbatim>\<open>v.([]interface{})\<close> in their one-result form: a value of another dynamic
  type, the nil interface included, panics.
\<close>

definition assert_map :: "goval option \<Rightarrow> panic + gomap" where
  "assert_map v = (case v of Some (VMap m) \<Rightarrow> Inr m | _ \<Rightarrow> Inl TypeAssertion)"

definition assert_float64 :: "goval option \<Rightarrow> panic + real" where
  "assert_float64 v = (case v of Some (VFloat64 f) \<Rightarrow> Inr f | _ \<Rightarrow> Inl TypeAssertion)"

definition assert_slice :: "goval option \<Rightarrow> panic + goval list" where
  "assert_slice v = (case v of Some (VSlice xs) \<Rightarrow> Inr xs | _ \<Rightarrow> Inl TypeAssertion)"

section \<open>Pagination metadata\<close>

text \<open>
  The fields of \<^verbatim>\<open>repositorysdk.PaginationMetadata\<close> that this repository reads
  and writes.
\<close>

record PaginationMetadata =
  ItemsPerPage :: int
  ItemCount :: int
  TotalItem :: int
  TotalPage :: int

text \<open>
  \<^verbatim>\<open>calMetadata\<close> writes through the pointer \<^verbatim>\<open>meta\<close>, statement by statement,
  so a panic leaves the writes made before it. The result is the outcome and the
  metadata as the call leaves it.
\<close>

definition calMetadata :: "PaginationMetadata \<Rightarrow> gomap \<Rightarrow> unit outcome \<times> PaginationMetadata" where
  "calMetadata meta result =
     (case assert_map (result ''hits'') of
        Inl p \<Rightarrow> (Panicked p, meta)
      | Inr hits \<Rightarrow>
     (case assert_map (hits ''total'') of
        Inl p \<Rightarrow> (Panicked p, meta)
      | Inr tot \<Rightarrow>
     (case assert_float64 (tot ''value'') of
        Inl p \<Rightarrow> (Panicked p, meta)
      | Inr v \<Rightarrow>
     (let totalItemValue = int_of_float64 v;
          meta1 = meta\<lparr>TotalItem := totalItemValue\<rparr>
      in if ItemsPerPage meta1 = 0 then (Panicked DivideByZero, meta1)
         else
     (let meta2 = meta1\<lparr>TotalPage := go_div totalItemValue (ItemsPerPage meta1)\<rparr>
      in case assert_slice (hits ''hits'') of
        Inl p \<Rightarrow> (Panicked p, meta2)
      | Inr hs \<Rightarrow>
     (let meta3 = meta2\<lparr>ItemCount := int (length hs)\<rparr>
      in if go_rem totalItemValue (ItemsPerPage meta3) \<noteq> 0
         then (Returned (), meta3\<lparr>TotalPage := wrap64 (TotalPage meta3 + 1)\<rparr>)
         else (Returned (), meta3)))))))"

section \<open>The logger, the engine client and the caller's memory\<close>

datatype level = InfoLevel | ErrorLevel

text \<open>
  The fields built by \<^verbatim>\<open>zap.String\<close>, \<^verbatim>\<open>zap.Int\<close>, \<^verbatim>\<open>zap.Uint64\<close> and
  \<^verbatim>\<open>zap.Error\<close> (which takes a nil error too).
\<close>

datatype field =
    zap_String string string
  | zap_Int string int
  | zap_Uint64 string nat
  | zap_Error "error option"

type_synonym entry = "level \<times> string \<times> field list"

record response =
  StatusCode :: int
  Body :: string

text \<open>
  What a call can change: the maps and the metadata behind the pointers
  \<^verbatim>\<open>req\<close>, \<^verbatim>\<open>result\<close> and \<^verbatim>\<open>meta\<close> (three pointers that are not nil, to
  three different objects), the entries handed to the logger, the search requests handed
  to the client (index name and body), and the number of response bodies received and not
  closed. The request map can be the nil map, \<open>None\<close>: Go reads it as an empty map and
  panics on a store into it. A nil result map needs no value of its own: it is only read
  and decoded into, where it behaves as the empty map.
\<close>

record state =
  req :: "gomap option"
  result :: gomap
  meta :: PaginationMetadata
  logs :: "entry list"
  submitted :: "(string \<times> string) list"
  open_bodies :: nat

record BulkIndexerItem =
  Index :: string
  Action :: string
  DocumentID :: string
  ItemBody :: string

text \<open>
  What the bulk indexer does with an item after it accepted it: it calls
  \<^verbatim>\<open>OnSuccess\<close>, or \<^verbatim>\<open>OnFailure\<close> with an error (possibly nil) and the
  type and reason of \<^verbatim>\<open>res.Error\<close>.
\<close>

datatype callback = Success | Failure "error option" string string

record BulkIndexerStats =
  NumFlushed :: nat
  NumFailed :: nat

text \<open>A document of type \<^verbatim>\<open>T\<close>: the results of its two methods.\<close>

record 'd OpenSearchDocumentAble =
  ToDoc :: 'd
  GetID :: string

text \<open>
  The code outside this repository is a parameter: the two getters of
  \<^verbatim>\<open>PaginationMetadata\<close> (pointer receivers, so they may write to the metadata),
  \<^verbatim>\<open>encoding/json\<close>, the requests of \<^verbatim>\<open>opensearchapi\<close> (a deadline that
  expires is an error of the request) and the bulk indexer of \<^verbatim>\<open>opensearchutil\<close>.
  \<open>json_Decode\<close> gives what decoding a body yields: an error, \<^verbatim>\<open>null\<close>
  (\<open>None\<close>) or an object.
\<close>

record 'd env =
  GetOffset :: "PaginationMetadata \<Rightarrow> int \<times> PaginationMetadata"
  GetItemPerPage :: "PaginationMetadata \<Rightarrow> int \<times> PaginationMetadata"
  json_Marshal :: "gomap \<Rightarrow> error + string"
  json_Marshal_doc :: "'d \<Rightarrow> error + string"
  json_Decode :: "string \<Rightarrow> error + gomap option"
  SearchRequest_Do :: "string \<Rightarrow> string \<Rightarrow> error + response"
  IndexRequest_Do :: "string \<Rightarrow> string \<Rightarrow> 'd \<Rightarrow> error + response"
  Client_Update :: "string \<Rightarrow> string \<Rightarrow> gomap \<Rightarrow> error + response"
  DeleteRequest_Do :: "string \<Rightarrow> string \<Rightarrow> error + response"
  NewBulkIndexer :: "string \<Rightarrow> error option"
  indexer_Add :: "BulkIndexerItem \<Rightarrow> error option"
  indexer_calls :: "BulkIndexerItem \<Rightarrow> callback option"
  indexer_Close :: "error option"
  indexer_Stats :: BulkIndexerStats

subsection \<open>Logging\<close>

definition logger_Info :: "string \<Rightarrow> field list \<Rightarrow> state \<Rightarrow> state" where
  "logger_Info msg fs s = s\<lparr>logs := logs s @ [(InfoLevel, msg, fs)]\<rparr>"

definition logger_Error :: "string \<Rightarrow> field list \<Rightarrow> state \<Rightarrow> state" where
  "logger_Error msg fs s = s\<lparr>logs := logs s @ [(ErrorLevel, msg, fs)]\<rparr>"

text \<open>
  \<^verbatim>\<open>logger.Error(err.Error(), zap.Error(err), fields...)\<close>: the arguments are
  evaluated before the call, so a nil \<^verbatim>\<open>err\<close> panics and nothing is logged.
\<close>

definition logger_Error_of :: "error option \<Rightarrow> field list \<Rightarrow> state \<Rightarrow> panic + state" where
  "logger_Error_of err fs s =
     (case Error_method err of
        Inl p \<Rightarrow> Inl p
      | Inr msg \<Rightarrow> Inr (logger_Error msg (zap_Error err # fs) s))"

text \<open>The statement after a log call is \<^verbatim>\<open>return v\<close>, reached unless the log call panicked.\<close>

definition then_return :: "panic + state \<Rightarrow> 'r \<Rightarrow> state \<Rightarrow> 'r outcome \<times> state" where
  "then_return logged v s =
     (case logged of Inl p \<Rightarrow> (Panicked p, s) | Inr s' \<Rightarrow> (Returned v, s'))"

definition Body_Close :: "state \<Rightarrow> state" where
  "Body_Close s = s\<lparr>open_bodies := open_bodies s - 1\<rparr>"

text \<open>
  \<^verbatim>\<open>Decode(result)\<close> into a map pointer: \<^verbatim>\<open>null\<close> sets the map to nil, an
  object is stored key by key into the map that is there.
\<close>

definition Decode_into :: "gomap \<Rightarrow> gomap option \<Rightarrow> gomap" where
  "Decode_into old decoded = (case decoded of None \<Rightarrow> Map.empty | Some obj \<Rightarrow> old ++ obj)"

section \<open>Search and Suggest\<close>

text \<open>\<^verbatim>\<open>(*req)[key] = v\<close>: a store into the nil map panics.\<close>

definition map_store :: "string \<Rightarrow> goval \<Rightarrow> gomap option \<Rightarrow> panic + gomap" where
  "map_store key v m = (case m of None \<Rightarrow> Inl NilMapAssignment | Some rm \<Rightarrow> Inr (rm(key \<mapsto> v)))"

text \<open>
  In \<^verbatim>\<open>(*req)["from"] = meta.GetOffset()\<close> the getter is called before the store is
  carried out, so its writes to the metadata stay when the store panics.
\<close>

definition Search :: "'d env \<Rightarrow> string \<Rightarrow> state \<Rightarrow> error option outcome \<times> state" where
  "Search env indexName s0 =
     (let (offset, m1) = GetOffset env (meta s0);
          s0' = s0\<lparr>meta := m1\<rparr>
      in case map_store ''from'' (VInt offset) (req s0') of
        Inl p \<Rightarrow> (Panicked p, s0')
      | Inr withFrom \<Rightarrow>
     (let s1 = s0'\<lparr>req := Some withFrom\<rparr>;
          (itemPerPage, m2) = GetItemPerPage env (meta s1);
          s1' = s1\<lparr>meta := m2\<rparr>
      in case map_store ''size'' (VInt itemPerPage) (req s1') of
        Inl p \<Rightarrow> (Panicked p, s1')
      | Inr withSize \<Rightarrow>
     (let s2 = s1'\<lparr>req := Some withSize\<rparr>
      in case json_Marshal env withSize of
        Inl err \<Rightarrow>
          then_return (logger_Error_of (Some err) [zap_String ''index_name'' indexName] s2) (Some err) s2
      | Inr reqJSON \<Rightarrow>
     (let s3 = s2\<lparr>submitted := submitted s2 @ [(indexName, reqJSON)]\<rparr>
      in case SearchRequest_Do env indexName reqJSON of
        Inl err \<Rightarrow>
          then_return (logger_Error_of (Some err) [zap_String ''index_name'' indexName] s3) (Some err) s3
      | Inr res \<Rightarrow>
     (let err = None;
          s4 = s3\<lparr>open_bodies := open_bodies s3 + 1\<rparr>
      in if StatusCode res > 200
         then then_return (logger_Error_of err [zap_String ''index_name'' indexName] s4)
                (Some (errors_New ''Invalid query'')) s4
         else
     \<comment> \<open>\<^verbatim>\<open>defer res.Body.Close()\<close> is in force from here on\<close>
     (case json_Decode env (Body res) of
        Inl err \<Rightarrow> (Returned (Some err), Body_Close s4)
      | Inr decoded \<Rightarrow>
     (let s5 = s4\<lparr>result := Decode_into (result s4) decoded\<rparr>;
          (out, m) = calMetadata (meta s5) (result s5);
          s6 = Body_Close (s5\<lparr>meta := m\<rparr>)
      in case out of
        Returned u \<Rightarrow> (Returned None, s6)
      | Panicked p \<Rightarrow> (Panicked p, s6)
      | Exited \<Rightarrow> (Exited, s6))))))))"

definition Suggest :: "'d env \<Rightarrow> string \<Rightarrow> state \<Rightarrow> error option outcome \<times> state" where
  "Suggest env indexName s0 =
     (case map_store ''size'' (VInt 10) (req s0) of
        Inl p \<Rightarrow> (Panicked p, s0)
      | Inr withSize \<Rightarrow>
     (let s2 = s0\<lparr>req := Some withSize\<rparr>
      in case json_Marshal env withSize of
        Inl err \<Rightarrow>
          then_return (logger_Error_of (Some err) [zap_String ''index_name'' indexName] s2) (Some err) s2
      | Inr reqJSON \<Rightarrow>
     (let s3 = s2\<lparr>submitted := submitted s2 @ [(indexName, reqJSON)]\<rparr>
      in case SearchRequest_Do env indexName reqJSON of
        Inl err \<Rightarrow>
          then_return (logger_Error_of (Some err) [zap_String ''index_name'' indexName] s3) (Some err) s3
      | Inr res \<Rightarrow>
     (let err = None;
          s4 = s3\<lparr>open_bodies := open_bodies s3 + 1\<rparr>
      in if StatusCode res > 200
         then then_return (logger_Error_of err [zap_String ''index_name'' indexName] s4)
                (Some (errors_New ''Invalid query'')) s4
         else
     \<comment> \<open>\<^verbatim>\<open>defer res.Body.Close()\<close> is in force from here on\<close>
     (case json_Decode env (Body res) of
        Inl err \<Rightarrow>
          (case logger_Error_of (Some err) [zap_String ''index_name'' indexName] s4 of
             Inl p \<Rightarrow> (Panicked p, Body_Close s4)
           | Inr s5 \<Rightarrow> (Returned (Some err), Body_Close s5))
      | Inr decoded \<Rightarrow>
          (Returned None, Body_Close (s4\<lparr>result := Decode_into (result s4) decoded\<rparr>)))))))"

section \<open>Insert, Update and Delete\<close>

definition Insert :: "'d env \<Rightarrow> string \<Rightarrow> string \<Rightarrow> 'd OpenSearchDocumentAble \<Rightarrow> state
    \<Rightarrow> error option outcome \<times> state" where
  "Insert env indexName docID doc s0 =
     (case IndexRequest_Do env indexName docID (ToDoc doc) of
        Inl err \<Rightarrow>
          then_return
            (logger_Error_of (Some err)
               [zap_String ''index_name'' indexName, zap_String ''doc_id'' docID] s0)
            (Some err) s0
      | Inr res \<Rightarrow>
     (let err = None;
          s1 = s0\<lparr>open_bodies := open_bodies s0 + 1\<rparr>
      in if StatusCode res \<ge> 400
         then then_return
                (logger_Error_of err
                   [zap_String ''index_name'' indexName, zap_String ''doc_id'' docID,
                    zap_Int ''status_code'' (StatusCode res)] s1)
                (Some (errors_New ''insert failed'')) s1
         else (Returned None,
               logger_Info ''successfully insert document''
                 [zap_String ''index_name'' indexName, zap_String ''doc_id'' docID] s1)))"

definition Update :: "'d env \<Rightarrow> string \<Rightarrow> string \<Rightarrow> gomap \<Rightarrow> state
    \<Rightarrow> error option outcome \<times> state" where
  "Update env indexName docID doc s0 =
     (case Client_Update env indexName docID [''doc'' \<mapsto> VMap doc] of
        Inl err \<Rightarrow>
          then_return
            (logger_Error_of (Some err)
               [zap_String ''index_name'' indexName, zap_String ''doc_id'' docID] s0)
            (Some err) s0
      | Inr res \<Rightarrow>
     (let err = None;
          s1 = s0\<lparr>open_bodies := open_bodies s0 + 1\<rparr>
      in if StatusCode res \<ge> 400
         then then_return
                (logger_Error_of err
                   [zap_String ''index_name'' indexName, zap_String ''doc_id'' docID,
                    zap_Int ''status_code'' (StatusCode res)] s1)
                (Some (errors_New ''update failed'')) s1
         else (Returned None,
               logger_Info ''successfully update document''
                 [zap_String ''index_name'' indexName, zap_String ''doc_id'' docID] s1)))"

definition Delete :: "'d env \<Rightarrow> string \<Rightarrow> string \<Rightarrow> state \<Rightarrow> error option outcome \<times> state" where
  "Delete env indexName docID s0 =
     (case DeleteRequest_Do env indexName docID of
        Inl err \<Rightarrow>
          then_return
            (logger_Error_of (Some err)
               [zap_String ''index_name'' indexName, zap_String ''doc_id'' docID] s0)
            (Some err) s0
      | Inr res \<Rightarrow>
     (let err = None;
          s1 = s0\<lparr>open_bodies := open_bodies s0 + 1\<rparr>
      in if StatusCode res \<ge> 400
         then then_return
                (logger_Error_of err
                   [zap_String ''index_name'' indexName, zap_String ''doc_id'' docID,
                    zap_Int ''status_code'' (StatusCode res)] s1)
                (Some (errors_New ''delete failed'')) s1
         else (Returned None,
               logger_Info ''successfully delete document''
                 [zap_Error err, zap_String ''index_name'' indexName, zap_String ''doc_id'' docID]
                 s1)))"

section \<open>InsertBulk\<close>

text \<open>
  The two callbacks of an item are closures over \<^verbatim>\<open>indexName\<close>, \<^verbatim>\<open>content\<close> and,
  for \<^verbatim>\<open>OnSuccess\<close>, the \<^verbatim>\<open>err\<close> of \<^verbatim>\<open>json.Marshal\<close>. \<^verbatim>\<open>OnFailure\<close> has
  its own parameter \<^verbatim>\<open>err\<close>.
\<close>

definition OnSuccess :: "error option \<Rightarrow> string \<Rightarrow> 'd OpenSearchDocumentAble \<Rightarrow> state \<Rightarrow> state" where
  "OnSuccess err indexName content s =
     logger_Info ''successfully insert doc content''
       [zap_Error err, zap_String ''index_name'' indexName, zap_String ''doc_id'' (GetID content)] s"

definition OnFailure :: "string \<Rightarrow> 'd OpenSearchDocumentAble \<Rightarrow> error option \<Rightarrow> string \<Rightarrow> string
    \<Rightarrow> state \<Rightarrow> panic + state" where
  "OnFailure indexName content err error_type error_reason s =
     (if err \<noteq> None
      then logger_Error_of err
             [zap_String ''index_name'' indexName, zap_String ''doc_id'' (GetID content)] s
      else logger_Error_of err
             [zap_String ''index_name'' indexName, zap_String ''doc_id'' (GetID content),
              zap_String ''error_type'' error_type, zap_String ''error_reason'' error_reason] s)"

text \<open>\<^verbatim>\<open>json.Marshal(content.ToDoc())\<close>: the bytes (none on an error) and the error.\<close>

definition Marshal_content :: "'d env \<Rightarrow> 'd OpenSearchDocumentAble \<Rightarrow> string \<times> error option" where
  "Marshal_content env content =
     (case json_Marshal_doc env (ToDoc content) of
        Inl e \<Rightarrow> ([], Some e)
      | Inr docContent \<Rightarrow> (docContent, None))"

definition item_of :: "string \<Rightarrow> 'd OpenSearchDocumentAble \<Rightarrow> string \<Rightarrow> BulkIndexerItem" where
  "item_of indexName content docContent =
     \<lparr>Index = indexName, Action = ''index'', DocumentID = GetID content, ItemBody = docContent\<rparr>"

definition insertBulk :: "'d env \<Rightarrow> string \<Rightarrow> 'd OpenSearchDocumentAble \<Rightarrow> state
    \<Rightarrow> unit outcome \<times> state" where
  "insertBulk env indexName content s0 =
     (let (docContent, err) = Marshal_content env content
      in case (if err \<noteq> None
               then logger_Error_of err
                      [zap_String ''index_name'' indexName, zap_String ''doc_id'' (GetID content)] s0
               else Inr s0) of
        Inl p \<Rightarrow> (Panicked p, s0)
      | Inr s1 \<Rightarrow>
     (case indexer_Add env (item_of indexName content docContent) of
        None \<Rightarrow> (Returned (), s1)
      | Some err \<Rightarrow>
          then_return
            (logger_Error_of (Some err)
               [zap_String ''index_name'' indexName, zap_String ''doc_id'' (GetID content)] s1)
            () s1))"

text \<open>
  The indexer calls back from its own workers, at the latest when it is closed. The model
  runs the callbacks of the accepted items one after the other, in the order of
  submission, after the last item was added; a panic in a callback ends the process.
\<close>

definition call_back :: "'d env \<Rightarrow> string \<Rightarrow> 'd OpenSearchDocumentAble \<Rightarrow> state
    \<Rightarrow> unit outcome \<times> state" where
  "call_back env indexName content s =
     (let (docContent, err) = Marshal_content env content
      in case indexer_calls env (item_of indexName content docContent) of
        None \<Rightarrow> (Returned (), s)
      | Some Success \<Rightarrow> (Returned (), OnSuccess err indexName content s)
      | Some (Failure ferr error_type error_reason) \<Rightarrow>
          then_return (OnFailure indexName content ferr error_type error_reason s) () s)"

fun for_each :: "('c \<Rightarrow> state \<Rightarrow> unit outcome \<times> state) \<Rightarrow> 'c list \<Rightarrow> state
    \<Rightarrow> unit outcome \<times> state" where
  "for_each body [] s = (Returned (), s)"
| "for_each body (content # rest) s =
     (case body content s of
        (Returned u, s') \<Rightarrow> for_each body rest s'
      | (Panicked p, s') \<Rightarrow> (Panicked p, s')
      | (Exited, s') \<Rightarrow> (Exited, s'))"

definition indexer_Close_logged :: "'d env \<Rightarrow> string \<Rightarrow> state \<Rightarrow> unit outcome \<times> state" where
  "indexer_Close_logged env indexName s =
     (case indexer_Close env of
        None \<Rightarrow> (Returned (), s)
      | Some err \<Rightarrow>
          then_return (logger_Error_of (Some err) [zap_String ''index_name'' indexName] s) () s)"

definition report_Stats :: "'d env \<Rightarrow> string \<Rightarrow> state \<Rightarrow> state" where
  "report_Stats env indexName s =
     (let stats = indexer_Stats env
      in if NumFailed stats > 0
         then logger_Error ''inserting some document failed''
                [zap_Error (Some (errors_New ''inserting some document failed'')),
                 zap_String ''index_name'' indexName,
                 zap_Uint64 ''num_flush'' (NumFlushed stats),
                 zap_Uint64 ''num_failed'' (NumFailed stats)] s
         else logger_Info ''successfully insert bulk document''
                [zap_String ''index_name'' indexName] s)"

definition InsertBulk :: "'d env \<Rightarrow> string \<Rightarrow> 'd OpenSearchDocumentAble list \<Rightarrow> state
    \<Rightarrow> error option outcome \<times> state" where
  "InsertBulk env indexName contentList s0 =
     (case NewBulkIndexer env indexName of
        Some err \<Rightarrow> (Exited, s0)
      | None \<Rightarrow>
     (case for_each (insertBulk env indexName) contentList s0 of
        (Panicked p, s1) \<Rightarrow> (Panicked p, s1)
      | (Exited, s1) \<Rightarrow> (Exited, s1)
      | (Returned u, s1) \<Rightarrow>
     (case for_each (call_back env indexName) contentList s1 of
        (Panicked p, s2) \<Rightarrow> (Panicked p, s2)
      | (Exited, s2) \<Rightarrow> (Exited, s2)
      | (Returned u, s2) \<Rightarrow>
     (case indexer_Close_logged env indexName s2 of
        (Panicked p, s3) \<Rightarrow> (Panicked p, s3)
      | (Exited, s3) \<Rightarrow> (Exited, s3)
      | (Returned u, s3) \<Rightarrow> (Returned None, report_Stats env indexName s3)))))"

section \<open>Envelopes and example inputs\<close>

text \<open>
  The shape of a search response that \<^verbatim>\<open>calMetadata\<close> relies on. An envelope is
  malformed when \<^verbatim>\<open>hits\<close> is absent or not a mapping, or \<^verbatim>\<open>hits.total.value\<close>
  is absent or not a number, or \<^verbatim>\<open>hits.hits\<close> is absent or not a sequence.
\<close>

definition malformed :: "gomap \<Rightarrow> bool" where
  "malformed envelope =
     (case envelope ''hits'' of
        Some (VMap hits) \<Rightarrow>
          (case hits ''total'' of
             Some (VMap tot) \<Rightarrow> (case tot ''value'' of Some (VFloat64 f) \<Rightarrow> False | _ \<Rightarrow> True)
           | _ \<Rightarrow> True)
          \<or> (case hits ''hits'' of Some (VSlice hs) \<Rightarrow> False | _ \<Rightarrow> True)
      | _ \<Rightarrow> True)"

text \<open>The map with no key: what the body \<^verbatim>\<open>{}\<close> decodes to.\<close>

definition empty_map :: gomap where
  "empty_map = Map.empty"

text \<open>A well-formed envelope with the given total and hit entries.\<close>

definition envelope_of :: "real \<Rightarrow> goval list \<Rightarrow> gomap" where
  "envelope_of n hs =
     [''hits'' \<mapsto> VMap [''total'' \<mapsto> VMap [''value'' \<mapsto> VFloat64 n], ''hits'' \<mapsto> VSlice hs]]"

definition meta_of :: "int \<Rightarrow> PaginationMetadata" where
  "meta_of itemsPerPage = \<lparr>ItemsPerPage = itemsPerPage, ItemCount = 0, TotalItem = 0, TotalPage = 0\<rparr>"

text \<open>
  The memory before a call: a query that already has a \<^verbatim>\<open>size\<close>, an empty result
  map, nothing logged, nothing submitted, no response body open.
\<close>

definition initial :: "int \<Rightarrow> state" where
  "initial itemsPerPage =
     \<lparr>req = Some [''query'' \<mapsto> VString ''cat'', ''size'' \<mapsto> VInt 500], result = Map.empty,
      meta = meta_of itemsPerPage, logs = [], submitted = [], open_bodies = 0\<rparr>"

definition a_doc :: "string \<Rightarrow> unit OpenSearchDocumentAble" where
  "a_doc docID = \<lparr>ToDoc = (), GetID = docID\<rparr>"

text \<open>
  An engine that answers every request with the given status and a body that decodes to
  the given value, accepts every bulk item and reports it indexed. The getters return
  the offset 10 and the field \<^verbatim>\<open>ItemsPerPage\<close>.
\<close>

definition stub_env :: "int \<Rightarrow> gomap option \<Rightarrow> unit env" where
  "stub_env status decoded =
     \<lparr>GetOffset = (\<lambda>m. (10, m)),
      GetItemPerPage = (\<lambda>m. (ItemsPerPage m, m)),
      json_Marshal = (\<lambda>m. Inr ''{..}''),
      json_Marshal_doc = (\<lambda>d. Inr ''{..}''),
      json_Decode = (\<lambda>b. Inr decoded),
      SearchRequest_Do = (\<lambda>i b. Inr \<lparr>StatusCode = status, Body = ''{..}''\<rparr>),
      IndexRequest_Do = (\<lambda>i d b. Inr \<lparr>StatusCode = status, Body = ''{..}''\<rparr>),
      Client_Update = (\<lambda>i d b. Inr \<lparr>StatusCode = status, Body = ''{..}''\<rparr>),
      DeleteRequest_Do = (\<lambda>i d. Inr \<lparr>StatusCode = status, Body = ''{..}''\<rparr>),
      NewBulkIndexer = (\<lambda>i. None),
      indexer_Add = (\<lambda>item. None),
      indexer_calls = (\<lambda>item. Some Success),
      indexer_Close = None,
      indexer_Stats = \<lparr>NumFlushed = 2, NumFailed = 0\<rparr>\<rparr>"

text \<open>
  The same engine rejecting every bulk item on its own: \<^verbatim>\<open>OnFailure\<close> gets a nil
  error and the type and reason of the rejection.
\<close>

definition rejecting_env :: "unit env" where
  "rejecting_env =
     (stub_env 200 None)
       \<lparr>indexer_calls :=
          (\<lambda>item. Some (Failure None ''mapper_parsing_exception'' ''failed to parse'')),
        indexer_Stats := \<lparr>NumFlushed = 0, NumFailed = 2\<rparr>\<rparr>"

section \<open>Facts about the arithmetic and the assertions\<close>

lemmas run_defs = then_return_def logger_Error_of_def Error_method_def logger_Error_def
  logger_Info_def Body_Close_def errors_New_def

lemmas assert_defs = assert_map_def assert_float64_def assert_slice_def

lemma wrap64_id: "- (2 ^ 63) \<le> x \<Longrightarrow> x < 2 ^ 63 \<Longrightarrow> wrap64 x = x"
  by (simp add: wrap64_def)

lemma int_of_float64_of_int:
  "- (2 ^ 63) \<le> t \<Longrightarrow> t < 2 ^ 63 \<Longrightarrow> int_of_float64 (of_int t) = t"
  by (simp add: int_of_float64_def)

lemma go_div_nonneg:
  assumes "0 \<le> a" "a < 2 ^ 63" "0 < b"
  shows "go_div a b = a div b"
proof -
  have q: "0 \<le> a div b"
    using assms by (simp add: pos_imp_zdiv_nonneg_iff)
  have "a div b \<le> a div 1"
    using assms by (intro zdiv_mono2) simp_all
  then have q': "a div b \<le> a" by simp
  have e: "sgn a * sgn b * (\<bar>a\<bar> div \<bar>b\<bar>) = a div b"
    using assms by (cases "a = 0") (simp_all add: sgn_if)
  have "wrap64 (a div b) = a div b"
    using q q' assms by (intro wrap64_id) linarith+
  then show ?thesis
    unfolding go_div_def e .
qed

lemma go_rem_nonneg: "0 \<le> a \<Longrightarrow> 0 < b \<Longrightarrow> go_rem a b = a mod b"
  by (cases "a = 0") (simp_all add: go_rem_def sgn_if)

lemma ceiling_div_int:
  fixes a b :: int
  assumes "0 < b"
  shows "\<lceil>real_of_int a / real_of_int b\<rceil> = a div b + (if a mod b \<noteq> 0 then 1 else 0)"
proof -
  have "\<lceil>real_of_int a / real_of_int b\<rceil> = - (- a div b)"
    by (rule ceiling_divide_eq_div)
  also have "\<dots> = a div b + (if a mod b \<noteq> 0 then 1 else 0)"
    using assms by (simp add: zdiv_zminus1_eq_if)
  finally show ?thesis .
qed

lemma incr_fits:
  fixes a b :: int
  assumes "0 \<le> a" "a < 2 ^ 63" "0 < b" "a mod b \<noteq> 0"
  shows "a div b + 1 < 2 ^ 63"
proof -
  have "b \<noteq> 1" using assms by auto
  then have "2 \<le> b" using assms by simp
  have "a div b \<le> a div 2"
    using \<open>2 \<le> b\<close> assms by (simp add: zdiv_mono2)
  then show ?thesis using assms by simp
qed

lemma assert_map_Inl: "assert_map v = Inl p \<Longrightarrow> p = TypeAssertion"
  by (auto simp add: assert_map_def split: option.splits goval.splits)

lemma assert_map_Inr: "assert_map v = Inr m \<Longrightarrow> v = Some (VMap m)"
  by (auto simp add: assert_map_def split: option.splits goval.splits)

lemma assert_float64_Inl: "assert_float64 v = Inl p \<Longrightarrow> p = TypeAssertion"
  by (auto simp add: assert_float64_def split: option.splits goval.splits)

lemma assert_float64_Inr: "assert_float64 v = Inr f \<Longrightarrow> v = Some (VFloat64 f)"
  by (auto simp add: assert_float64_def split: option.splits goval.splits)

lemma assert_slice_Inl: "assert_slice v = Inl p \<Longrightarrow> p = TypeAssertion"
  by (auto simp add: assert_slice_def split: option.splits goval.splits)

lemma assert_slice_Inr: "assert_slice v = Inr xs \<Longrightarrow> v = Some (VSlice xs)"
  by (auto simp add: assert_slice_def split: option.splits goval.splits)

lemma calMetadata_malformed:
  assumes bad: "malformed envelope"
  shows "fst (calMetadata md envelope) = Panicked TypeAssertion
    \<or> fst (calMetadata md envelope) = Panicked DivideByZero"
proof (cases "assert_map (envelope ''hits'')")
  case (Inl p)
  then show ?thesis
    by (simp add: calMetadata_def assert_map_Inl [OF Inl])
next
  case hits: (Inr hits)
  show ?thesis
  proof (cases "assert_map (hits ''total'')")
    case (Inl p)
    then show ?thesis
      by (simp add: calMetadata_def hits assert_map_Inl [OF Inl])
  next
    case tot: (Inr tot)
    show ?thesis
    proof (cases "assert_float64 (tot ''value'')")
      case (Inl p)
      then show ?thesis
        by (simp add: calMetadata_def hits tot assert_float64_Inl [OF Inl])
    next
      case val: (Inr v)
      show ?thesis
      proof (cases "assert_slice (hits ''hits'')")
        case (Inl p)
        then show ?thesis
          by (simp add: calMetadata_def hits tot val Let_def assert_slice_Inl [OF Inl])
      next
        case (Inr hs)
        have "\<not> malformed envelope"
          by (simp add: malformed_def assert_map_Inr [OF hits] assert_map_Inr [OF tot]
              assert_float64_Inr [OF val] assert_slice_Inr [OF Inr])
        with bad show ?thesis by simp
      qed
    qed
  qed
qed

section \<open>Pagination metadata: the page count and the item count\<close>

text \<open>
  C1. For a metadata with \<^verbatim>\<open>ItemsPerPage > 0\<close> and a well-formed envelope whose
  \<^verbatim>\<open>hits.total.value\<close> is a non-negative integer \<open>totalItem\<close> (one that an
  \<^verbatim>\<open>int\<close> holds), \<^verbatim>\<open>calMetadata\<close> returns and leaves \<^verbatim>\<open>TotalItem\<close> at
  \<open>totalItem\<close> and \<^verbatim>\<open>TotalPage\<close> at the integer quotient of \<open>totalItem\<close> by
  \<^verbatim>\<open>ItemsPerPage\<close>, plus one exactly when the remainder is not zero; that number is
  the ceiling of \<open>totalItem / ItemsPerPage\<close>.
\<close>

theorem calMetadata_TotalPage:
  assumes ipp: "0 < ItemsPerPage md"
    and hits: "envelope ''hits'' = Some (VMap hits)"
    and tot: "hits ''total'' = Some (VMap tot)"
    and val: "tot ''value'' = Some (VFloat64 (of_int totalItem))"
    and hs: "hits ''hits'' = Some (VSlice hs)"
    and nonneg: "0 \<le> totalItem" and fits: "totalItem < 2 ^ 63"
  shows "fst (calMetadata md envelope) = Returned ()
    \<and> TotalItem (snd (calMetadata md envelope)) = totalItem
    \<and> TotalPage (snd (calMetadata md envelope)) =
        totalItem div ItemsPerPage md + (if totalItem mod ItemsPerPage md \<noteq> 0 then 1 else 0)
    \<and> TotalPage (snd (calMetadata md envelope)) =
        \<lceil>real_of_int totalItem / real_of_int (ItemsPerPage md)\<rceil>"
proof -
  have conv: "int_of_float64 (of_int totalItem) = totalItem"
    using nonneg fits by (simp add: int_of_float64_of_int)
  have d: "go_div totalItem (ItemsPerPage md) = totalItem div ItemsPerPage md"
    using nonneg fits ipp by (rule go_div_nonneg)
  have r: "go_rem totalItem (ItemsPerPage md) = totalItem mod ItemsPerPage md"
    using nonneg ipp by (rule go_rem_nonneg)
  have q: "0 \<le> totalItem div ItemsPerPage md"
    using nonneg ipp by (simp add: pos_imp_zdiv_nonneg_iff)
  have w: "totalItem mod ItemsPerPage md \<noteq> 0 \<Longrightarrow>
      wrap64 (totalItem div ItemsPerPage md + 1) = totalItem div ItemsPerPage md + 1"
    using incr_fits [OF nonneg fits ipp] q by (simp add: wrap64_id)
  show ?thesis
    using ipp w
    by (simp add: calMetadata_def assert_map_def assert_float64_def assert_slice_def
        hits tot val hs conv d r Let_def ceiling_div_int)
qed

theorem calMetadata_TotalPage_witness:
  "0 < ItemsPerPage (meta_of 10)
   \<and> envelope_of 25 [] ''hits'' = Some (VMap [''total'' \<mapsto> VMap [''value'' \<mapsto> VFloat64 25], ''hits'' \<mapsto> VSlice []])
   \<and> fst (calMetadata (meta_of 10) (envelope_of 25 [])) = Returned ()
   \<and> TotalPage (snd (calMetadata (meta_of 10) (envelope_of 25 []))) = 3
   \<and> TotalPage (snd (calMetadata (meta_of 10) (envelope_of 20 []))) = 2
   \<and> TotalPage (snd (calMetadata (meta_of 10) (envelope_of 0 []))) = 0"
  using
    calMetadata_TotalPage [of "meta_of 10" "envelope_of 25 []"
      "[''total'' \<mapsto> VMap [''value'' \<mapsto> VFloat64 25], ''hits'' \<mapsto> VSlice []]"
      "[''value'' \<mapsto> VFloat64 25]" 25 "[]"]
    calMetadata_TotalPage [of "meta_of 10" "envelope_of 20 []"
      "[''total'' \<mapsto> VMap [''value'' \<mapsto> VFloat64 20], ''hits'' \<mapsto> VSlice []]"
      "[''value'' \<mapsto> VFloat64 20]" 20 "[]"]
    calMetadata_TotalPage [of "meta_of 10" "envelope_of 0 []"
      "[''total'' \<mapsto> VMap [''value'' \<mapsto> VFloat64 0], ''hits'' \<mapsto> VSlice []]"
      "[''value'' \<mapsto> VFloat64 0]" 0 "[]"]
  by (simp add: meta_of_def envelope_of_def)

text \<open>
  C4. For a well-formed envelope and a metadata whose \<^verbatim>\<open>ItemsPerPage\<close> is not zero,
  \<^verbatim>\<open>calMetadata\<close> returns and leaves \<^verbatim>\<open>ItemCount\<close> at the number of entries
  of \<^verbatim>\<open>hits.hits\<close>, whatever \<^verbatim>\<open>ItemsPerPage\<close> and \<^verbatim>\<open>hits.total.value\<close>
  are.
\<close>

theorem calMetadata_ItemCount:
  assumes "ItemsPerPage md \<noteq> 0"
    and "envelope ''hits'' = Some (VMap hits)"
    and "hits ''total'' = Some (VMap tot)"
    and "tot ''value'' = Some (VFloat64 v)"
    and "hits ''hits'' = Some (VSlice hs)"
  shows "fst (calMetadata md envelope) = Returned ()
    \<and> ItemCount (snd (calMetadata md envelope)) = int (length hs)"
  using assms by (simp add: calMetadata_def assert_defs Let_def)

theorem calMetadata_ItemCount_witness:
  "ItemsPerPage (meta_of 10) \<noteq> 0
   \<and> envelope_of 25 [VString ''a'', VString ''b'', VString ''c''] ''hits'' =
       Some (VMap [''total'' \<mapsto> VMap [''value'' \<mapsto> VFloat64 25],
                   ''hits'' \<mapsto> VSlice [VString ''a'', VString ''b'', VString ''c'']])
   \<and> fst (calMetadata (meta_of 10) (envelope_of 25 [VString ''a'', VString ''b'', VString ''c''])) = Returned ()
   \<and> ItemCount (snd (calMetadata (meta_of 10) (envelope_of 25 [VString ''a'', VString ''b'', VString ''c'']))) = 3"
  using calMetadata_ItemCount [of "meta_of 10" "envelope_of 25 [VString ''a'', VString ''b'', VString ''c'']"
      "[''total'' \<mapsto> VMap [''value'' \<mapsto> VFloat64 25],
        ''hits'' \<mapsto> VSlice [VString ''a'', VString ''b'', VString ''c'']]"
      "[''value'' \<mapsto> VFloat64 25]" 25 "[VString ''a'', VString ''b'', VString ''c'']"]
  by (simp add: meta_of_def envelope_of_def)

section \<open>Malformed envelopes\<close>

lemma calMetadata_empty_keeps_meta: "snd (calMetadata md empty_map) = md"
  by (simp add: calMetadata_def assert_defs empty_map_def)

lemma Search_decoded:
  assumes "req s = Some rm"
    and "GetOffset env (meta s) = (offset, m1)"
    and "GetItemPerPage env m1 = (itemPerPage, m2)"
    and "json_Marshal env (rm(''from'' \<mapsto> VInt offset, ''size'' \<mapsto> VInt itemPerPage)) = Inr reqJSON"
    and "SearchRequest_Do env indexName reqJSON = Inr res"
    and "StatusCode res \<le> 200"
    and "json_Decode env (Body res) = Inr decoded"
  shows "fst (Search env indexName s) =
     (case fst (calMetadata m2 (Decode_into (result s) decoded)) of
        Returned u \<Rightarrow> Returned None | Panicked p \<Rightarrow> Panicked p | Exited \<Rightarrow> Exited)"
  using assms
  by (simp add: Search_def map_store_def Let_def split: prod.splits outcome.splits)

text \<open>
  C3, as the code has it. \<^verbatim>\<open>calMetadata\<close> has no error result: on a malformed
  envelope it panics, on a failed type assertion or on the division by a zero
  \<^verbatim>\<open>ItemsPerPage\<close> that comes before the assertion on \<^verbatim>\<open>hits.hits\<close>, and a
  \<^verbatim>\<open>Search\<close> that decoded such an envelope panics with it instead of returning an
  error.
\<close>

theorem malformed_envelope_panics:
  assumes bad: "malformed envelope"
  shows "(fst (calMetadata md envelope) = Panicked TypeAssertion
          \<or> fst (calMetadata md envelope) = Panicked DivideByZero)
   \<and> (req s = Some rm
      \<and> GetOffset env (meta s) = (offset, m1) \<and> GetItemPerPage env m1 = (itemPerPage, m2)
      \<and> json_Marshal env (rm(''from'' \<mapsto> VInt offset, ''size'' \<mapsto> VInt itemPerPage)) = Inr reqJSON
      \<and> SearchRequest_Do env indexName reqJSON = Inr res \<and> StatusCode res \<le> 200
      \<and> json_Decode env (Body res) = Inr decoded \<and> Decode_into (result s) decoded = envelope
    \<longrightarrow> fst (Search env indexName s) = Panicked TypeAssertion
        \<or> fst (Search env indexName s) = Panicked DivideByZero)"
proof (intro conjI impI)
  show "fst (calMetadata md envelope) = Panicked TypeAssertion
      \<or> fst (calMetadata md envelope) = Panicked DivideByZero"
    using bad by (rule calMetadata_malformed)
next
  assume h: "req s = Some rm
      \<and> GetOffset env (meta s) = (offset, m1) \<and> GetItemPerPage env m1 = (itemPerPage, m2)
      \<and> json_Marshal env (rm(''from'' \<mapsto> VInt offset, ''size'' \<mapsto> VInt itemPerPage)) = Inr reqJSON
      \<and> SearchRequest_Do env indexName reqJSON = Inr res \<and> StatusCode res \<le> 200
      \<and> json_Decode env (Body res) = Inr decoded \<and> Decode_into (result s) decoded = envelope"
  then have run: "fst (Search env indexName s) =
      (case fst (calMetadata m2 envelope) of
         Returned u \<Rightarrow> Returned None | Panicked p \<Rightarrow> Panicked p | Exited \<Rightarrow> Exited)"
    using Search_decoded [of s rm env offset m1 itemPerPage m2 reqJSON indexName res decoded]
    by simp
  from calMetadata_malformed [OF bad, of m2]
  show "fst (Search env indexName s) = Panicked TypeAssertion
      \<or> fst (Search env indexName s) = Panicked DivideByZero"
    by (auto simp add: run)
qed

theorem malformed_envelope_panics_witness:
  "malformed [''hits'' \<mapsto> VMap [''total'' \<mapsto> VMap Map.empty, ''hits'' \<mapsto> VSlice []]]
   \<and> fst (calMetadata (meta_of 10)
        [''hits'' \<mapsto> VMap [''total'' \<mapsto> VMap Map.empty, ''hits'' \<mapsto> VSlice []]])
       = Panicked TypeAssertion
   \<and> fst (Search
        (stub_env 200 (Some [''hits'' \<mapsto> VMap [''total'' \<mapsto> VMap Map.empty, ''hits'' \<mapsto> VSlice []]]))
        ''idx'' (initial 10))
       = Panicked TypeAssertion"
proof -
  let ?e = "[''hits'' \<mapsto> VMap [''total'' \<mapsto> VMap Map.empty, ''hits'' \<mapsto> VSlice []]]"
  have bad: "malformed ?e"
    by (simp add: malformed_def)
  have c: "fst (calMetadata (meta_of 10) ?e) \<noteq> Panicked DivideByZero"
    by (simp add: calMetadata_def assert_defs)
  have s: "fst (Search (stub_env 200 (Some ?e)) ''idx'' (initial 10)) \<noteq> Panicked DivideByZero"
    by (simp add: Search_def map_store_def stub_env_def initial_def Decode_into_def calMetadata_def
        assert_defs run_defs Let_def)
  have d: "Decode_into (result (initial 10)) (Some ?e) = ?e"
    by (simp add: Decode_into_def initial_def)
  show ?thesis
    using malformed_envelope_panics [OF bad, where md = "meta_of 10" and env = "stub_env 200 (Some ?e)"
        and s = "initial 10" and rm = "[''query'' \<mapsto> VString ''cat'', ''size'' \<mapsto> VInt 500]"
        and offset = 10 and ?m1.0 = "meta_of 10" and itemPerPage = 10 and ?m2.0 = "meta_of 10"
        and reqJSON = "''{..}''" and indexName = "''idx''"
        and res = "\<lparr>StatusCode = 200, Body = ''{..}''\<rparr>" and decoded = "Some ?e"] bad c s d
    by (simp add: stub_env_def initial_def meta_of_def)
qed

text \<open>
  The claim as the specification states it fails on the empty envelope: the computation
  and the search end in a panic, not in a returned error.
\<close>

theorem Search_empty_envelope_panics:
  "fst (calMetadata (meta_of 10) empty_map) = Panicked TypeAssertion
   \<and> fst (Search (stub_env 200 (Some empty_map)) ''idx'' (initial 10)) = Panicked TypeAssertion"
  by (simp add: calMetadata_def assert_defs Search_def map_store_def stub_env_def initial_def
      Decode_into_def empty_map_def run_defs Let_def)

section \<open>The request maps of Suggest and Search\<close>

text \<open>
  C7. Every body that \<^verbatim>\<open>Suggest\<close> submits is the encoding of the caller's request
  map with 10 stored under \<^verbatim>\<open>size\<close>, over any value that is there, and the caller's
  map is left with that store. Nothing is submitted when the map cannot be marshalled,
  or when it is the nil map, where the store panics.
\<close>

theorem Suggest_size:
  "req (snd (Suggest env indexName s)) = map_option (\<lambda>rm. rm(''size'' \<mapsto> VInt 10)) (req s)
   \<and> submitted (snd (Suggest env indexName s)) =
       submitted s @
         (case req s of
            None \<Rightarrow> []
          | Some rm \<Rightarrow>
              (case json_Marshal env (rm(''size'' \<mapsto> VInt 10)) of
                 Inl e \<Rightarrow> [] | Inr reqJSON \<Rightarrow> [(indexName, reqJSON)]))"
  by (simp add: Suggest_def map_store_def run_defs Let_def
      split: option.splits sum.splits error.splits)

theorem Suggest_size_witness:
  "req (initial 10) = Some [''query'' \<mapsto> VString ''cat'', ''size'' \<mapsto> VInt 500]
   \<and> req (snd (Suggest (stub_env 200 (Some empty_map)) ''idx'' (initial 10))) =
       Some [''query'' \<mapsto> VString ''cat'', ''size'' \<mapsto> VInt 10]
   \<and> submitted (snd (Suggest (stub_env 200 (Some empty_map)) ''idx'' (initial 10))) =
       [(''idx'', ''{..}'')]"
proof -
  have e: "[''query'' \<mapsto> VString ''cat'', ''size'' \<mapsto> VInt 500, ''size'' \<mapsto> VInt 10]
      = [''query'' \<mapsto> VString ''cat'', ''size'' \<mapsto> VInt (10::int)]"
    by (auto simp add: fun_eq_iff)
  show ?thesis
    using Suggest_size [of "stub_env 200 (Some empty_map)" "''idx''" "initial 10"] e
    by (simp add: stub_env_def initial_def)
qed

lemma Suggest_nil_map_panics:
  "req s = None \<Longrightarrow> Suggest env indexName s = (Panicked NilMapAssignment, s)"
  by (simp add: Suggest_def map_store_def)

text \<open>
  C8. With \<open>offset\<close> and \<open>itemPerPage\<close> the values that \<^verbatim>\<open>meta.GetOffset()\<close> and
  \<^verbatim>\<open>meta.GetItemPerPage()\<close> return, every body that \<^verbatim>\<open>Search\<close> submits is the
  encoding of the caller's request map with these two stored under \<^verbatim>\<open>from\<close> and
  \<^verbatim>\<open>size\<close>; the caller's map is left with the two stores and every other key as it
  was. Nothing is submitted when the map cannot be marshalled, or when it is the nil map,
  where the first store panics.
\<close>

theorem Search_from_size:
  assumes "GetOffset env (meta s) = (offset, m1)"
    and "GetItemPerPage env m1 = (itemPerPage, m2)"
  shows "req (snd (Search env indexName s)) =
           map_option (\<lambda>rm. rm(''from'' \<mapsto> VInt offset, ''size'' \<mapsto> VInt itemPerPage)) (req s)
   \<and> submitted (snd (Search env indexName s)) =
       submitted s @
         (case req s of
            None \<Rightarrow> []
          | Some rm \<Rightarrow>
              (case json_Marshal env (rm(''from'' \<mapsto> VInt offset, ''size'' \<mapsto> VInt itemPerPage)) of
                 Inl e \<Rightarrow> [] | Inr reqJSON \<Rightarrow> [(indexName, reqJSON)]))
   \<and> (\<forall>rm. req s = Some rm \<longrightarrow>
         (\<exists>rm'. req (snd (Search env indexName s)) = Some rm'
            \<and> rm' ''from'' = Some (VInt offset) \<and> rm' ''size'' = Some (VInt itemPerPage)
            \<and> (\<forall>k. k \<noteq> ''from'' \<longrightarrow> k \<noteq> ''size'' \<longrightarrow> rm' k = rm k)))"
  using assms
  by (simp add: Search_def map_store_def run_defs Let_def
      split: option.splits sum.splits error.splits prod.splits outcome.splits)

theorem Search_from_size_witness:
  "GetOffset (stub_env 200 (Some (envelope_of 25 []))) (meta (initial 10)) = (10, meta_of 10)
   \<and> GetItemPerPage (stub_env 200 (Some (envelope_of 25 []))) (meta_of 10) = (10, meta_of 10)
   \<and> req (initial 10) = Some [''query'' \<mapsto> VString ''cat'', ''size'' \<mapsto> VInt 500]
   \<and> req (snd (Search (stub_env 200 (Some (envelope_of 25 []))) ''idx'' (initial 10))) =
       Some [''query'' \<mapsto> VString ''cat'', ''from'' \<mapsto> VInt 10, ''size'' \<mapsto> VInt 10]
   \<and> submitted (snd (Search (stub_env 200 (Some (envelope_of 25 []))) ''idx'' (initial 10))) =
       [(''idx'', ''{..}'')]"
proof -
  have g: "GetOffset (stub_env 200 (Some (envelope_of 25 []))) (meta (initial 10)) = (10, meta_of 10)"
    by (simp add: stub_env_def initial_def)
  have h: "GetItemPerPage (stub_env 200 (Some (envelope_of 25 []))) (meta_of 10) = (10, meta_of 10)"
    by (simp add: stub_env_def meta_of_def)
  have e: "[''query'' \<mapsto> VString ''cat'', ''size'' \<mapsto> VInt 500, ''from'' \<mapsto> VInt 10, ''size'' \<mapsto> VInt 10]
      = [''query'' \<mapsto> VString ''cat'', ''from'' \<mapsto> VInt 10, ''size'' \<mapsto> VInt (10::int)]"
    by (auto simp add: fun_eq_iff)
  show ?thesis
    using Search_from_size [OF g h, of "''idx''"] g h e
    by (simp add: stub_env_def initial_def)
qed

lemma Search_nil_map_panics:
  assumes "req s = None" and "GetOffset env (meta s) = (offset, m1)"
  shows "Search env indexName s = (Panicked NilMapAssignment, s\<lparr>meta := m1\<rparr>)"
  using assms by (simp add: Search_def map_store_def)

section \<open>The error-status branches\<close>

lemma Search_error_status:
  assumes "req s = Some rm"
    and "GetOffset env (meta s) = (offset, m1)"
    and "GetItemPerPage env m1 = (itemPerPage, m2)"
    and "json_Marshal env (rm(''from'' \<mapsto> VInt offset, ''size'' \<mapsto> VInt itemPerPage)) = Inr reqJSON"
    and "SearchRequest_Do env indexName reqJSON = Inr res"
    and "200 < StatusCode res"
  shows "Search env indexName s =
     (Panicked NilDereference,
      s\<lparr>meta := m2, req := Some (rm(''from'' \<mapsto> VInt offset, ''size'' \<mapsto> VInt itemPerPage)),
        submitted := submitted s @ [(indexName, reqJSON)], open_bodies := open_bodies s + 1\<rparr>)"
  using assms by (simp add: Search_def map_store_def run_defs Let_def)

lemma Suggest_error_status:
  assumes "req s = Some rm"
    and "json_Marshal env (rm(''size'' \<mapsto> VInt 10)) = Inr reqJSON"
    and "SearchRequest_Do env indexName reqJSON = Inr res"
    and "200 < StatusCode res"
  shows "Suggest env indexName s =
     (Panicked NilDereference,
      s\<lparr>req := Some (rm(''size'' \<mapsto> VInt 10)),
        submitted := submitted s @ [(indexName, reqJSON)], open_bodies := open_bodies s + 1\<rparr>)"
  using assms by (simp add: Suggest_def map_store_def run_defs Let_def)

lemma Insert_error_status:
  assumes "IndexRequest_Do env indexName docID (ToDoc doc) = Inr res" and "400 \<le> StatusCode res"
  shows "Insert env indexName docID doc s = (Panicked NilDereference, s\<lparr>open_bodies := open_bodies s + 1\<rparr>)"
  using assms by (simp add: Insert_def run_defs Let_def)

lemma Update_error_status:
  assumes "Client_Update env indexName docID [''doc'' \<mapsto> VMap d] = Inr res" and "400 \<le> StatusCode res"
  shows "Update env indexName docID d s = (Panicked NilDereference, s\<lparr>open_bodies := open_bodies s + 1\<rparr>)"
  using assms by (simp add: Update_def run_defs Let_def)

lemma Delete_error_status:
  assumes "DeleteRequest_Do env indexName docID = Inr res" and "400 \<le> StatusCode res"
  shows "Delete env indexName docID s = (Panicked NilDereference, s\<lparr>open_bodies := open_bodies s + 1\<rparr>)"
  using assms by (simp add: Delete_def run_defs Let_def)

text \<open>
  C10. When the request succeeded (\<^verbatim>\<open>err\<close> is nil) and the status is in the failure
  range, above 200 for \<^verbatim>\<open>Search\<close> and \<^verbatim>\<open>Suggest\<close> and from 400 on for
  \<^verbatim>\<open>Insert\<close>, \<^verbatim>\<open>Update\<close> and \<^verbatim>\<open>Delete\<close>, building the log entry calls
  \<^verbatim>\<open>err.Error()\<close> on the nil error: the call panics, nothing is logged and no
  error is returned.
\<close>

theorem error_status_branch_panics:
  "(req s = Some rm
      \<and> GetOffset env (meta s) = (offset, m1) \<and> GetItemPerPage env m1 = (itemPerPage, m2)
      \<and> json_Marshal env (rm(''from'' \<mapsto> VInt offset, ''size'' \<mapsto> VInt itemPerPage)) = Inr reqJSON
      \<and> SearchRequest_Do env indexName reqJSON = Inr res \<and> 200 < StatusCode res
    \<longrightarrow> fst (Search env indexName s) = Panicked NilDereference
        \<and> logs (snd (Search env indexName s)) = logs s)
   \<and> (req s = Some rm \<and> json_Marshal env (rm(''size'' \<mapsto> VInt 10)) = Inr reqJSON
      \<and> SearchRequest_Do env indexName reqJSON = Inr res \<and> 200 < StatusCode res
    \<longrightarrow> fst (Suggest env indexName s) = Panicked NilDereference
        \<and> logs (snd (Suggest env indexName s)) = logs s)
   \<and> (IndexRequest_Do env indexName docID (ToDoc doc) = Inr res \<and> 400 \<le> StatusCode res
    \<longrightarrow> fst (Insert env indexName docID doc s) = Panicked NilDereference
        \<and> logs (snd (Insert env indexName docID doc s)) = logs s)
   \<and> (Client_Update env indexName docID [''doc'' \<mapsto> VMap d] = Inr res \<and> 400 \<le> StatusCode res
    \<longrightarrow> fst (Update env indexName docID d s) = Panicked NilDereference
        \<and> logs (snd (Update env indexName docID d s)) = logs s)
   \<and> (DeleteRequest_Do env indexName docID = Inr res \<and> 400 \<le> StatusCode res
    \<longrightarrow> fst (Delete env indexName docID s) = Panicked NilDereference
        \<and> logs (snd (Delete env indexName docID s)) = logs s)"
  by (simp add: Search_error_status Suggest_error_status Insert_error_status
      Update_error_status Delete_error_status)

theorem error_status_branch_panics_witness:
  "SearchRequest_Do (stub_env 500 None) ''idx'' ''{..}'' = Inr \<lparr>StatusCode = 500, Body = ''{..}''\<rparr>
   \<and> IndexRequest_Do (stub_env 500 None) ''idx'' ''7'' (ToDoc (a_doc ''7'')) = Inr \<lparr>StatusCode = 500, Body = ''{..}''\<rparr>
   \<and> fst (Search (stub_env 500 None) ''idx'' (initial 10)) = Panicked NilDereference
   \<and> fst (Suggest (stub_env 500 None) ''idx'' (initial 10)) = Panicked NilDereference
   \<and> fst (Insert (stub_env 500 None) ''idx'' ''7'' (a_doc ''7'') (initial 10)) = Panicked NilDereference
   \<and> fst (Update (stub_env 500 None) ''idx'' ''7'' Map.empty (initial 10)) = Panicked NilDereference
   \<and> fst (Delete (stub_env 500 None) ''idx'' ''7'' (initial 10)) = Panicked NilDereference
   \<and> logs (snd (Insert (stub_env 500 None) ''idx'' ''7'' (a_doc ''7'') (initial 10))) = []"
  using error_status_branch_panics [where env = "stub_env 500 None" and s = "initial 10"
      and rm = "[''query'' \<mapsto> VString ''cat'', ''size'' \<mapsto> VInt 500]"
      and offset = 10 and ?m1.0 = "meta_of 10" and itemPerPage = 10 and ?m2.0 = "meta_of 10"
      and reqJSON = "''{..}''" and indexName = "''idx''"
      and res = "\<lparr>StatusCode = 500, Body = ''{..}''\<rparr>" and docID = "''7''"
      and doc = "a_doc ''7''" and d = Map.empty]
  by (simp add: stub_env_def initial_def meta_of_def)

text \<open>
  C5. The specification has \<^verbatim>\<open>Search\<close> and \<^verbatim>\<open>Suggest\<close> return the error
  \<^verbatim>\<open>Invalid query\<close> exactly for a status above 200. At the statuses 404 and 201 the
  code panics on the nil error before its \<^verbatim>\<open>return errors.New("Invalid query")\<close>.
\<close>

theorem status_404_Search_Suggest:
  "fst (Search (stub_env 404 None) ''idx'' (initial 10)) = Panicked NilDereference
   \<and> fst (Suggest (stub_env 404 None) ''idx'' (initial 10)) = Panicked NilDereference
   \<and> fst (Search (stub_env 201 None) ''idx'' (initial 10)) = Panicked NilDereference"
  by (simp add: Search_def Suggest_def map_store_def stub_env_def initial_def run_defs Let_def)

lemma Search_Suggest_status_200:
  "fst (Search (stub_env 200 (Some (envelope_of 25 []))) ''idx'' (initial 10)) = Returned None
   \<and> fst (Suggest (stub_env 200 (Some empty_map)) ''idx'' (initial 10)) = Returned None"
  by (simp add: Search_def Suggest_def map_store_def stub_env_def initial_def meta_of_def envelope_of_def empty_map_def
      Decode_into_def calMetadata_def assert_defs run_defs Let_def)

text \<open>
  C6. The specification has \<^verbatim>\<open>Insert\<close>, \<^verbatim>\<open>Update\<close> and \<^verbatim>\<open>Delete\<close> return
  the errors \<^verbatim>\<open>insert failed\<close>, \<^verbatim>\<open>update failed\<close> and \<^verbatim>\<open>delete failed\<close> for a
  status from 400 on. At the status 404 the code panics on the nil error before the
  \<^verbatim>\<open>return\<close>.
\<close>

theorem status_404_Insert_Update_Delete:
  "fst (Insert (stub_env 404 None) ''idx'' ''1'' (a_doc ''1'') (initial 10)) = Panicked NilDereference
   \<and> fst (Update (stub_env 404 None) ''idx'' ''1'' empty_map (initial 10)) = Panicked NilDereference
   \<and> fst (Delete (stub_env 404 None) ''idx'' ''1'' (initial 10)) = Panicked NilDereference"
  by (simp add: Insert_def Update_def Delete_def stub_env_def initial_def run_defs Let_def)

text \<open>The other half of C6 holds: below 400 the call returns nil and logs the success.\<close>

lemma Insert_success:
  assumes "IndexRequest_Do env indexName docID (ToDoc doc) = Inr res" and "StatusCode res < 400"
  shows "Insert env indexName docID doc s =
     (Returned None,
      logger_Info ''successfully insert document''
        [zap_String ''index_name'' indexName, zap_String ''doc_id'' docID]
        (s\<lparr>open_bodies := open_bodies s + 1\<rparr>))"
  using assms by (simp add: Insert_def Let_def)

lemma Update_success:
  assumes "Client_Update env indexName docID [''doc'' \<mapsto> VMap d] = Inr res" and "StatusCode res < 400"
  shows "Update env indexName docID d s =
     (Returned None,
      logger_Info ''successfully update document''
        [zap_String ''index_name'' indexName, zap_String ''doc_id'' docID]
        (s\<lparr>open_bodies := open_bodies s + 1\<rparr>))"
  using assms by (simp add: Update_def Let_def)

lemma Delete_success:
  assumes "DeleteRequest_Do env indexName docID = Inr res" and "StatusCode res < 400"
  shows "Delete env indexName docID s =
     (Returned None,
      logger_Info ''successfully delete document''
        [zap_Error None, zap_String ''index_name'' indexName, zap_String ''doc_id'' docID]
        (s\<lparr>open_bodies := open_bodies s + 1\<rparr>))"
  using assms by (simp add: Delete_def Let_def)

text \<open>
  C9. The specification has the response body closed on every exit of \<^verbatim>\<open>Search\<close>
  and \<^verbatim>\<open>Suggest\<close>. The \<^verbatim>\<open>defer res.Body.Close()\<close> stands after the status check,
  so at the status 404 the call ends with the body still open.
\<close>

theorem status_404_body_left_open:
  "open_bodies (initial 10) = 0
   \<and> open_bodies (snd (Search (stub_env 404 None) ''idx'' (initial 10))) = 1
   \<and> open_bodies (snd (Suggest (stub_env 404 None) ''idx'' (initial 10))) = 1"
  by (simp add: Search_def Suggest_def map_store_def stub_env_def initial_def run_defs Let_def)

text \<open>Once the \<^verbatim>\<open>defer\<close> is in force the body is closed, also when decoding fails.\<close>

lemma Suggest_decode_error_closes_body:
  assumes "req s = Some rm"
    and "json_Marshal env (rm(''size'' \<mapsto> VInt 10)) = Inr reqJSON"
    and "SearchRequest_Do env indexName reqJSON = Inr res"
    and "StatusCode res \<le> 200"
    and "json_Decode env (Body res) = Inl e"
  shows "fst (Suggest env indexName s) = Returned (Some e)
    \<and> open_bodies (snd (Suggest env indexName s)) = open_bodies s"
  using assms by (simp add: Suggest_def map_store_def run_defs Let_def split: error.splits)

lemma Search_decode_error_closes_body:
  assumes "req s = Some rm"
    and "GetOffset env (meta s) = (offset, m1)"
    and "GetItemPerPage env m1 = (itemPerPage, m2)"
    and "json_Marshal env (rm(''from'' \<mapsto> VInt offset, ''size'' \<mapsto> VInt itemPerPage)) = Inr reqJSON"
    and "SearchRequest_Do env indexName reqJSON = Inr res"
    and "StatusCode res \<le> 200"
    and "json_Decode env (Body res) = Inl e"
  shows "fst (Search env indexName s) = Returned (Some e)
    \<and> open_bodies (snd (Search env indexName s)) = open_bodies s"
  using assms by (simp add: Search_def map_store_def run_defs Let_def)

section \<open>InsertBulk\<close>

text \<open>
  C2. The specification has \<^verbatim>\<open>InsertBulk\<close> return nil also when items fail at the
  engine, the failures going to the logger. An item that the engine rejects reaches
  \<^verbatim>\<open>OnFailure\<close> with a nil error; the branch for it calls \<^verbatim>\<open>err.Error()\<close> and
  panics, so the call does not return nil and the failure is not logged.
\<close>

theorem InsertBulk_rejected_item_panics:
  "indexer_calls rejecting_env (item_of ''idx'' (a_doc ''1'') ''{..}'')
     = Some (Failure None ''mapper_parsing_exception'' ''failed to parse'')
   \<and> fst (InsertBulk rejecting_env ''idx'' [a_doc ''1'', a_doc ''2''] (initial 10))
       = Panicked NilDereference
   \<and> logs (snd (InsertBulk rejecting_env ''idx'' [a_doc ''1'', a_doc ''2''] (initial 10))) = []"
  by (simp add: InsertBulk_def rejecting_env_def stub_env_def insertBulk_def call_back_def
      Marshal_content_def OnFailure_def item_of_def a_doc_def initial_def run_defs Let_def)

text \<open>
  The rest of C2 holds: with the indexer created, as long as no item is handed to
  \<^verbatim>\<open>OnFailure\<close> with a nil error the call returns nil, and its last act is the
  report of the indexer's counters to the logger.
\<close>

lemma insertBulk_returns: "fst (insertBulk env indexName content s) = Returned ()"
  by (simp add: insertBulk_def Marshal_content_def run_defs split: sum.splits error.splits option.splits)

lemma for_each_returns:
  assumes "\<And>content s. content \<in> set contentList \<Longrightarrow> fst (body content s) = Returned ()"
  shows "fst (for_each body contentList s) = Returned ()"
  using assms
proof (induction contentList arbitrary: s)
  case Nil
  show ?case by simp
next
  case (Cons content rest)
  have "fst (body content s) = Returned ()"
    by (rule Cons.prems) simp
  then obtain s' where step: "body content s = (Returned (), s')"
    by (cases "body content s") simp
  have "fst (for_each body rest s') = Returned ()"
    by (rule Cons.IH) (simp add: Cons.prems)
  then show ?case by (simp add: step)
qed

lemma call_back_returns:
  assumes "\<forall>t r. indexer_calls env (item_of indexName content (fst (Marshal_content env content)))
      \<noteq> Some (Failure None t r)"
  shows "fst (call_back env indexName content s) = Returned ()"
proof (cases "indexer_calls env (item_of indexName content (fst (Marshal_content env content)))")
  case None
  then show ?thesis
    by (simp add: call_back_def case_prod_beta)
next
  case (Some cb)
  show ?thesis
  proof (cases cb)
    case Success
    with Some show ?thesis
      by (simp add: call_back_def case_prod_beta)
  next
    case (Failure ferr t r)
    with Some assms obtain e where "ferr = Some e"
      by (cases ferr) auto
    with Some Failure show ?thesis
      by (simp add: call_back_def OnFailure_def run_defs case_prod_beta split: error.splits)
  qed
qed

lemma indexer_Close_logged_returns: "fst (indexer_Close_logged env indexName s) = Returned ()"
  by (simp add: indexer_Close_logged_def run_defs split: option.splits error.splits)

lemma InsertBulk_without_rejection:
  assumes made: "NewBulkIndexer env indexName = None"
    and errs: "\<forall>content \<in> set contentList. \<forall>t r.
      indexer_calls env (item_of indexName content (fst (Marshal_content env content)))
        \<noteq> Some (Failure None t r)"
  shows "fst (InsertBulk env indexName contentList s) = Returned None
    \<and> (\<exists>s'. snd (InsertBulk env indexName contentList s) = report_Stats env indexName s')"
proof -
  have "fst (for_each (insertBulk env indexName) contentList s) = Returned ()"
    by (rule for_each_returns) (rule insertBulk_returns)
  then obtain s1 where a: "for_each (insertBulk env indexName) contentList s = (Returned (), s1)"
    by (cases "for_each (insertBulk env indexName) contentList s") simp
  have "fst (for_each (call_back env indexName) contentList s1) = Returned ()"
    by (rule for_each_returns) (rule call_back_returns, use errs in blast)
  then obtain s2 where b: "for_each (call_back env indexName) contentList s1 = (Returned (), s2)"
    by (cases "for_each (call_back env indexName) contentList s1") simp
  obtain s3 where c: "indexer_Close_logged env indexName s2 = (Returned (), s3)"
    using indexer_Close_logged_returns [of env indexName s2]
    by (cases "indexer_Close_logged env indexName s2") simp
  have "InsertBulk env indexName contentList s = (Returned None, report_Stats env indexName s3)"
    by (simp add: InsertBulk_def made a b c)
  then show ?thesis
    by auto
qed

lemma InsertBulk_all_indexed:
  "fst (InsertBulk (stub_env 200 None) ''idx'' [a_doc ''1'', a_doc ''2''] (initial 10)) = Returned None"
  using InsertBulk_without_rejection [of "stub_env 200 None" "''idx''" "[a_doc ''1'', a_doc ''2'']" "initial 10"]
  by (simp add: stub_env_def)

end
